theory Spec2Isabelle
  imports Main
begin

section \<open>Widget registry (client/src/lib/widgets.ts)\<close>

text \<open>
  The registry is a static table from widget kind to its definition. Property values are
  JavaScript values of type \<open>any\<close>. The values of the model are \<open>undefined\<close>,
  \<open>null\<close>, booleans, numbers, strings, arrays and plain objects; an object is the list
  of its own properties in enumeration order. \<open>JNumber n\<close> is the integer \<open>n\<close>, which
  is a number of JavaScript when \<open>\<bar>n\<bar>\<close> is at most \<open>Number.MAX_SAFE_INTEGER\<close>.
  \<open>JDecimal m f\<close> is the number nearest to \<open>m / 10 ^ f\<close>, written with \<open>f\<close> digits
  after the point: \<open>JDecimal 145 1\<close> is \<open>14.5\<close>. A number has one such form with
  \<open>0 < f\<close>, a last digit other than 0 and at most 15 significant digits, or none; up to
  15 significant digits a decimal and the number nearest to it determine each other, and
  the digits are then the ones \<open>Number::toString\<close> prints; a term \<open>JDecimal m f\<close>
  outside this form stands for no value. \<open>JNegativeZero\<close> is \<open>-0\<close> and
  \<open>JNonFinite\<close> holds \<open>NaN\<close> and the two infinities. Numbers that need more digits
  are not values of the model. The registry only ever writes string, number and boolean
  literals, and every number literal in it is an integer. The tree operations never
  inspect a value, they only store and copy it.

  The \<open>icon\<close> field of a definition holds an emoji and is only rendered; it is the one
  field left out of the record. Field names carry a suffix where several interfaces of the
  source use the same name (\<open>id\<close>, \<open>name\<close>, \<open>type\<close>, \<open>props\<close>, \<open>description\<close>).
\<close>

datatype nonfinite = NaN | PosInfinity | NegInfinity

datatype jsvalue =
    JUndefined
  | JNull
  | JBoolean bool
  | JNumber int
  | JDecimal int nat
  | JNegativeZero
  | JNonFinite nonfinite
  | JString string
  | JArray "jsvalue list"
  | JObject "(string \<times> jsvalue) list"

datatype prop_type = PString | PNumber | PBoolean | PColor | PEnum | PObject

datatype category = Layout | Content | Input

record WidgetProp =
  name_p :: string
  type_p :: prop_type
  label :: string
  description_p :: "string option"
  defaultValue :: "jsvalue option"
  options :: "string list option"
  placeholder :: "string option"

type_synonym props_map = "(string \<times> jsvalue) list"

text \<open>
  The own keys of an object enumerate as \<open>OrdinaryOwnPropertyKeys\<close> gives them: first
  the array indices (the decimal text, without leading zeros, of an integer below
  \<open>2\<^sup>3\<^sup>2 - 1\<close>) in ascending order, then the other keys in the order of their
  creation. \<open>key_before a b\<close>: a new key \<open>a\<close> is placed in front of an existing key
  \<open>b\<close>. Writing a property: an existing key keeps its place and takes the new value, a
  new key goes to its place among the indices or to the end.
\<close>

definition is_digit :: "char \<Rightarrow> bool" where
  "is_digit c = (48 \<le> (of_char c :: nat) \<and> (of_char c :: nat) < 58)"

definition digit_val :: "char \<Rightarrow> int" where
  "digit_val c = int (of_char c) - 48"

definition read_digits :: "string \<Rightarrow> int" where
  "read_digits ds = foldl (\<lambda>a c. 10 * a + digit_val c) 0 ds"

definition is_index :: "string \<Rightarrow> bool" where
  "is_index k =
     (case k of
        [] \<Rightarrow> False
      | c # cs \<Rightarrow> list_all is_digit k \<and> (if c = CHR ''0'' then cs = [] else True)
                 \<and> read_digits k < 4294967295)"

definition key_before :: "string \<Rightarrow> string \<Rightarrow> bool" where
  "key_before a b =
     (is_index a \<and> (if is_index b then read_digits a < read_digits b else True))"


fun replace_prop :: "string \<Rightarrow> jsvalue \<Rightarrow> props_map \<Rightarrow> props_map" where
  "replace_prop k v [] = []"
| "replace_prop k v ((k', v') # rest) =
     (if k' = k then (k, v) # rest else (k', v') # replace_prop k v rest)"

fun insert_prop :: "string \<Rightarrow> jsvalue \<Rightarrow> props_map \<Rightarrow> props_map" where
  "insert_prop k v [] = [(k, v)]"
| "insert_prop k v ((k', v') # rest) =
     (if key_before k k' then (k, v) # (k', v') # rest else (k', v') # insert_prop k v rest)"

definition set_prop :: "string \<Rightarrow> jsvalue \<Rightarrow> props_map \<Rightarrow> props_map" where
  "set_prop k v ps = (if map_of ps k = None then insert_prop k v ps else replace_prop k v ps)"


record WidgetDefinition =
  id_w :: string
  name_w :: string
  category_w :: category
  description_w :: string
  canHaveChildren :: bool
  props_w :: "WidgetProp list"
  defaultProps :: "props_map option"

text \<open>
  A component node: \<open>{ id, type, props, children }\<close>. The props object is kept as
  the list of its properties in enumeration order and read with \<open>map_of\<close>.
\<close>

datatype ComponentNode =
  ComponentNode (id_c: string) (type_c: string) (props: props_map)
    (children: "ComponentNode list")

text \<open>Shorthand for one entry of a \<open>props\<close> array of the registry.\<close>

definition mkprop ::
  "string \<Rightarrow> prop_type \<Rightarrow> string \<Rightarrow> jsvalue option \<Rightarrow> string list option \<Rightarrow> string option
    \<Rightarrow> WidgetProp" where
  "mkprop n t l d os ph =
     \<lparr>name_p = n, type_p = t, label = l, description_p = None, defaultValue = d,
      options = os, placeholder = ph\<rparr>"

definition mainAxisOptions :: "string list" where
  "mainAxisOptions =
     [''start'', ''end'', ''center'', ''spaceBetween'', ''spaceAround'', ''spaceEvenly'']"

definition crossAxisOptions :: "string list" where
  "crossAxisOptions = [''start'', ''end'', ''center'', ''stretch'', ''baseline'']"

definition w_Scaffold :: WidgetDefinition where
  "w_Scaffold =
     \<lparr>id_w = ''Scaffold'', name_w = ''Scaffold'', category_w = Layout,
      description_w = ''Basic screen structure with AppBar and body'',
      canHaveChildren = True, props_w = [], defaultProps = None\<rparr>"

definition w_AppBar :: WidgetDefinition where
  "w_AppBar =
     \<lparr>id_w = ''AppBar'', name_w = ''App Bar'', category_w = Layout,
      description_w = ''Top bar of the application'',
      canHaveChildren = False,
      props_w =
        [mkprop ''title'' PString ''Title'' (Some (JString ''My App'')) None
           (Some ''Enter app bar title''),
         mkprop ''backgroundColor'' PColor ''Background Color'' (Some (JString ''#6200EE''))
           None None,
         mkprop ''elevation'' PNumber ''Elevation'' (Some (JNumber 4)) None None],
      defaultProps = None\<rparr>"

definition w_Container :: WidgetDefinition where
  "w_Container =
     \<lparr>id_w = ''Container'', name_w = ''Container'', category_w = Layout,
      description_w = ''Convenience widget combining painting and positioning'',
      canHaveChildren = True,
      props_w =
        [mkprop ''backgroundColor'' PColor ''Background Color'' None None None,
         mkprop ''padding'' PNumber ''Padding'' (Some (JNumber 8)) None None,
         mkprop ''margin'' PNumber ''Margin'' (Some (JNumber 0)) None None,
         mkprop ''borderRadius'' PNumber ''Border Radius'' (Some (JNumber 0)) None None,
         mkprop ''border'' PBoolean ''Add Border'' (Some (JBoolean False)) None None],
      defaultProps = None\<rparr>"

definition w_Row :: WidgetDefinition where
  "w_Row =
     \<lparr>id_w = ''Row'', name_w = ''Row'', category_w = Layout,
      description_w = ''Arranges children horizontally'',
      canHaveChildren = True,
      props_w =
        [mkprop ''mainAxisAlignment'' PEnum ''Main Axis Alignment'' (Some (JString ''start''))
           (Some mainAxisOptions) None,
         mkprop ''crossAxisAlignment'' PEnum ''Cross Axis Alignment''
           (Some (JString ''center'')) (Some crossAxisOptions) None],
      defaultProps = None\<rparr>"

definition w_Column :: WidgetDefinition where
  "w_Column =
     \<lparr>id_w = ''Column'', name_w = ''Column'', category_w = Layout,
      description_w = ''Arranges children vertically'',
      canHaveChildren = True,
      props_w =
        [mkprop ''mainAxisAlignment'' PEnum ''Main Axis Alignment'' (Some (JString ''start''))
           (Some mainAxisOptions) None,
         mkprop ''crossAxisAlignment'' PEnum ''Cross Axis Alignment''
           (Some (JString ''center'')) (Some crossAxisOptions) None],
      defaultProps = None\<rparr>"

definition w_Stack :: WidgetDefinition where
  "w_Stack =
     \<lparr>id_w = ''Stack'', name_w = ''Stack'', category_w = Layout,
      description_w = ''Arranges children on top of each other'',
      canHaveChildren = True, props_w = [], defaultProps = None\<rparr>"

definition w_Positioned :: WidgetDefinition where
  "w_Positioned =
     \<lparr>id_w = ''Positioned'', name_w = ''Positioned'', category_w = Layout,
      description_w = ''Positions child absolutely within Stack'',
      canHaveChildren = True,
      props_w =
        [mkprop ''top'' PNumber ''Top'' None None None,
         mkprop ''bottom'' PNumber ''Bottom'' None None None,
         mkprop ''left'' PNumber ''Left'' None None None,
         mkprop ''right'' PNumber ''Right'' None None None],
      defaultProps = None\<rparr>"

definition w_Expanded :: WidgetDefinition where
  "w_Expanded =
     \<lparr>id_w = ''Expanded'', name_w = ''Expanded'', category_w = Layout,
      description_w = ''Expands child to fill available space'',
      canHaveChildren = True,
      props_w = [mkprop ''flex'' PNumber ''Flex'' (Some (JNumber 1)) None None],
      defaultProps = None\<rparr>"

definition w_SizedBox :: WidgetDefinition where
  "w_SizedBox =
     \<lparr>id_w = ''SizedBox'', name_w = ''Sized Box'', category_w = Layout,
      description_w = ''Creates a box with specified size'',
      canHaveChildren = False,
      props_w =
        [mkprop ''width'' PNumber ''Width'' None None None,
         mkprop ''height'' PNumber ''Height'' None None None],
      defaultProps = None\<rparr>"

definition w_Padding :: WidgetDefinition where
  "w_Padding =
     \<lparr>id_w = ''Padding'', name_w = ''Padding'', category_w = Layout,
      description_w = ''Adds uniform padding around child'',
      canHaveChildren = True,
      props_w = [mkprop ''padding'' PNumber ''Padding'' (Some (JNumber 8)) None None],
      defaultProps = None\<rparr>"

definition w_Center :: WidgetDefinition where
  "w_Center =
     \<lparr>id_w = ''Center'', name_w = ''Center'', category_w = Layout,
      description_w = ''Centers child within itself'',
      canHaveChildren = True, props_w = [], defaultProps = None\<rparr>"

definition w_Card :: WidgetDefinition where
  "w_Card =
     \<lparr>id_w = ''Card'', name_w = ''Card'', category_w = Layout,
      description_w = ''Material design card with shadow'',
      canHaveChildren = True,
      props_w = [mkprop ''elevation'' PNumber ''Elevation'' (Some (JNumber 1)) None None],
      defaultProps = None\<rparr>"

definition w_ListView :: WidgetDefinition where
  "w_ListView =
     \<lparr>id_w = ''ListView'', name_w = ''List View'', category_w = Layout,
      description_w = ''Scrollable list of items'',
      canHaveChildren = False,
      props_w = [mkprop ''itemCount'' PNumber ''Item Count'' (Some (JNumber 10)) None None],
      defaultProps = None\<rparr>"

definition w_Text :: WidgetDefinition where
  "w_Text =
     \<lparr>id_w = ''Text'', name_w = ''Text'', category_w = Content,
      description_w = ''Displays a string of text'',
      canHaveChildren = False,
      props_w =
        [mkprop ''text'' PString ''Text'' (Some (JString ''Hello World'')) None
           (Some ''Enter text''),
         mkprop ''fontSize'' PNumber ''Font Size'' (Some (JNumber 14)) None None,
         mkprop ''color'' PColor ''Color'' (Some (JString ''#000000'')) None None,
         mkprop ''fontWeight'' PEnum ''Font Weight'' (Some (JString ''normal''))
           (Some [''normal'', ''bold'']) None,
         mkprop ''alignment'' PEnum ''Alignment'' (Some (JString ''left''))
           (Some [''left'', ''right'', ''center'', ''justify'', ''start'', ''end'']) None],
      defaultProps = None\<rparr>"

definition w_Button :: WidgetDefinition where
  "w_Button =
     \<lparr>id_w = ''Button'', name_w = ''Button'', category_w = Input,
      description_w = ''Elevated button widget'',
      canHaveChildren = False,
      props_w =
        [mkprop ''text'' PString ''Button Text'' (Some (JString ''Press me'')) None
           (Some ''Enter button text''),
         mkprop ''onPress'' PString ''On Press Handler'' None None (Some ''handlePress''),
         mkprop ''navigateTo'' PString ''Navigate To'' None None (Some ''/route'')],
      defaultProps = None\<rparr>"

definition w_TextField :: WidgetDefinition where
  "w_TextField =
     \<lparr>id_w = ''TextField'', name_w = ''Text Field'', category_w = Input,
      description_w = ''Text input field'',
      canHaveChildren = False,
      props_w =
        [mkprop ''hintText'' PString ''Hint Text'' None None (Some ''Enter hint text'')],
      defaultProps = None\<rparr>"

definition w_Icon :: WidgetDefinition where
  "w_Icon =
     \<lparr>id_w = ''Icon'', name_w = ''Icon'', category_w = Content,
      description_w = ''Material Design icon'',
      canHaveChildren = False,
      props_w =
        [mkprop ''icon'' PString ''Icon Name'' None None
           (Some ''star, person, arrow_forward_ios''),
         mkprop ''size'' PNumber ''Size'' (Some (JNumber 24)) None None,
         mkprop ''color'' PColor ''Color'' (Some (JString ''#000000'')) None None],
      defaultProps = None\<rparr>"

definition w_Image :: WidgetDefinition where
  "w_Image =
     \<lparr>id_w = ''Image'', name_w = ''Image'', category_w = Content,
      description_w = ''Displays an image'',
      canHaveChildren = False,
      props_w =
        [mkprop ''src'' PString ''Image URL or Path'' None None
           (Some ''https://example.com/image.png''),
         mkprop ''fit'' PEnum ''Fit'' (Some (JString ''cover''))
           (Some [''cover'', ''contain'', ''fill'', ''fitWidth'', ''fitHeight'', ''scaleDown''])
           None],
      defaultProps = None\<rparr>"

definition FLUTTER_WIDGETS :: "(string \<times> WidgetDefinition) list" where
  "FLUTTER_WIDGETS =
     [(''Scaffold'', w_Scaffold), (''AppBar'', w_AppBar), (''Container'', w_Container),
      (''Row'', w_Row), (''Column'', w_Column), (''Stack'', w_Stack),
      (''Positioned'', w_Positioned), (''Expanded'', w_Expanded), (''SizedBox'', w_SizedBox),
      (''Padding'', w_Padding), (''Center'', w_Center), (''Card'', w_Card),
      (''ListView'', w_ListView), (''Text'', w_Text), (''Button'', w_Button),
      (''TextField'', w_TextField), (''Icon'', w_Icon), (''Image'', w_Image)]"

text \<open>
  \<open>getWidgetDefinition(type)\<close> is \<open>FLUTTER_WIDGETS[type]\<close>, a property read on an
  object literal. For a key of the table it gives the definition, and for most other
  strings \<open>undefined\<close>. The literal also inherits the members of \<open>Object.prototype\<close>:
  for their names the read gives that member, a truthy value that is no definition and
  has none of a definition's fields.
\<close>

datatype lookup = Undefined | Inherited | Definition WidgetDefinition

definition objectPrototypeKeys :: "string list" where
  "objectPrototypeKeys =
     [''constructor'', ''hasOwnProperty'', ''isPrototypeOf'', ''propertyIsEnumerable'',
      ''toLocaleString'', ''toString'', ''valueOf'', ''__proto__'', ''__defineGetter__'',
      ''__defineSetter__'', ''__lookupGetter__'', ''__lookupSetter__'']"

definition getWidgetDefinition :: "string \<Rightarrow> lookup" where
  "getWidgetDefinition t =
     (case map_of FLUTTER_WIDGETS t of
        Some d \<Rightarrow> Definition d
      | None \<Rightarrow> if t \<in> set objectPrototypeKeys then Inherited else Undefined)"

text \<open>
  \<open>canContainWidget\<close>: for an inherited member \<open>parent\<close> is truthy, the two kind tests
  fail and \<open>parent.canHaveChildren\<close> is \<open>undefined\<close>; the callers only test the result
  for truth, so it is \<open>False\<close> here.
\<close>

definition canContainWidget :: "string \<Rightarrow> string \<Rightarrow> bool" where
  "canContainWidget parentType childType =
     (case getWidgetDefinition parentType of
        Undefined \<Rightarrow> False
      | Inherited \<Rightarrow>
          if parentType = ''ListView'' then True
          else if parentType = ''AppBar'' then False
          else False
      | Definition parent \<Rightarrow>
          if parentType = ''ListView'' then True
          else if parentType = ''AppBar'' then False
          else canHaveChildren parent)"

section \<open>Default instances (client/src/lib/widgets.ts)\<close>

datatype error = UnknownWidgetType string | TypeError

text \<open>
  \<open>createDefaultComponent(type)\<close> throws when the lookup gives \<open>undefined\<close>. An
  inherited member passes the test \<open>!definition\<close> and has no \<open>defaultProps\<close>. The
  identifier is
  \<open>`${type}-${Date.now()}-${Math.random().toString(36).substr(2, 9)}`\<close>; the
  clock reading and the random suffix are inputs of the model, as rendered strings.
  \<open>definition.defaultProps || {}\<close> is the declared \<open>defaultProps\<close> object when there
  is one (an object is truthy) and the empty object otherwise.
\<close>

definition createDefaultComponent :: "string \<Rightarrow> string \<Rightarrow> string \<Rightarrow> error + ComponentNode" where
  "createDefaultComponent now rnd t =
     (case getWidgetDefinition t of
        Undefined \<Rightarrow> Inl (UnknownWidgetType t)
      | Inherited \<Rightarrow> Inr (ComponentNode (t @ ''-'' @ now @ ''-'' @ rnd) t [] [])
      | Definition definition \<Rightarrow>
          Inr (ComponentNode (t @ ''-'' @ now @ ''-'' @ rnd) t
                 (case defaultProps definition of Some dp \<Rightarrow> dp | None \<Rightarrow> [])
                 []))"

text \<open>
  The default property values a definition declares, property by property
  (\<open>defaultValue\<close> of each entry of \<open>props\<close>). This is the reading of "the registry's
  default property values" in the specification; no function of the source computes it.
\<close>

definition declaredDefaults :: "WidgetDefinition \<Rightarrow> props_map" where
  "declaredDefaults d =
     List.map_filter (\<lambda>p. map_option (Pair (name_p p)) (defaultValue p)) (props_w d)"

section \<open>Tree helpers (client/src/pages/VisualBuilder.tsx and the enhanced builder page)\<close>

text \<open>
  Both builder pages carry the same five helper functions, character for character.
  The \<open>for\<close> loop of \<open>findComponentById\<close> with its early \<open>return found\<close> is
  \<open>findInChildren\<close>.
\<close>

fun findComponentById :: "ComponentNode \<Rightarrow> string \<Rightarrow> ComponentNode option"
  and findInChildren :: "ComponentNode list \<Rightarrow> string \<Rightarrow> ComponentNode option" where
  "findComponentById (ComponentNode i t p cs) x =
     (if i = x then Some (ComponentNode i t p cs) else findInChildren cs x)"
| "findInChildren [] x = None"
| "findInChildren (child # rest) x =
     (case findComponentById child x of
        Some found \<Rightarrow> Some found
      | None \<Rightarrow> findInChildren rest x)"

fun updateComponentRecursive ::
  "ComponentNode \<Rightarrow> string \<Rightarrow> (ComponentNode \<Rightarrow> ComponentNode) \<Rightarrow> ComponentNode" where
  "updateComponentRecursive (ComponentNode i t p cs) x updater =
     (if i = x then updater (ComponentNode i t p cs)
      else ComponentNode i t p (map (\<lambda>child. updateComponentRecursive child x updater) cs))"

definition updateComponentInTree ::
  "ComponentNode list \<Rightarrow> string \<Rightarrow> (ComponentNode \<Rightarrow> ComponentNode) \<Rightarrow> ComponentNode list" where
  "updateComponentInTree components x updater =
     map (\<lambda>c. updateComponentRecursive c x updater) components"

fun deleteComponentRecursive :: "ComponentNode \<Rightarrow> string \<Rightarrow> ComponentNode option" where
  "deleteComponentRecursive (ComponentNode i t p cs) x =
     (if i = x then None
      else Some (ComponentNode i t p
             (map the (filter (\<lambda>child. child \<noteq> None)
                (map (\<lambda>child. deleteComponentRecursive child x) cs)))))"

definition deleteComponentFromTree :: "ComponentNode list \<Rightarrow> string \<Rightarrow> ComponentNode list" where
  "deleteComponentFromTree components x =
     map the (filter (\<lambda>c. c \<noteq> None)
       (map (\<lambda>c. deleteComponentRecursive c x) components))"

text \<open>
  The two updaters the handlers pass: \<open>(comp) => ({ ...comp, props })\<close> and
  \<open>(comp) => ({ ...comp, children: [...comp.children, newChild] })\<close>.
\<close>

definition spread_props :: "props_map \<Rightarrow> ComponentNode \<Rightarrow> ComponentNode" where
  "spread_props P component =
     ComponentNode (id_c component) (type_c component) P (children component)"

definition spread_children :: "ComponentNode \<Rightarrow> ComponentNode \<Rightarrow> ComponentNode" where
  "spread_children newChild component =
     ComponentNode (id_c component) (type_c component) (props component)
       (children component @ [newChild])"

text \<open>The identifiers occurring in a tree and in a root list, parent before children.\<close>

fun node_ids :: "ComponentNode \<Rightarrow> string list" where
  "node_ids (ComponentNode i t p cs) = i # concat (map node_ids cs)"

definition forest_ids :: "ComponentNode list \<Rightarrow> string list" where
  "forest_ids cs = concat (map node_ids cs)"

text \<open>\<open>selectedId || ''\<close>: \<open>null\<close> and the empty string both give the empty string.\<close>

definition or_empty :: "string option \<Rightarrow> string" where
  "or_empty s = (case s of None \<Rightarrow> [] | Some x \<Rightarrow> x)"


section \<open>The enhanced builder page: pages, selection, notices\<close>

record PageData =
  id_pg :: string
  name_pg :: string
  route :: string
  is_home :: bool
  components :: "ComponentNode list"

datatype toast = ToastError string | ToastSuccess string

text \<open>
  The state the handlers read and set. A handler returns \<open>Inr\<close> of the state after it,
  or \<open>Inl\<close> of the exception it throws together with the state set up to the throw.
  \<open>toasts\<close> collects the notices in the order they are raised.
\<close>

record editor =
  pages :: "PageData list"
  currentPageId :: string
  selectedComponentId :: "string option"
  toasts :: "toast list"

definition currentPage :: "editor \<Rightarrow> PageData option" where
  "currentPage st = List.find (\<lambda>p. id_pg p = currentPageId st) (pages st)"

text \<open>
  \<open>selectedComponent\<close> of the enhanced page reads \<open>currentPage.components[0]\<close> without
  a length test: on an empty root list \<open>findComponentById(undefined, ...)\<close> throws a
  TypeError at \<open>component.id\<close>.
\<close>

definition selectedComponentEnhanced :: "editor \<Rightarrow> error + ComponentNode option" where
  "selectedComponentEnhanced st =
     (case currentPage st of
        None \<Rightarrow> Inr None
      | Some cp \<Rightarrow>
          (case components cp of
             [] \<Rightarrow> Inl TypeError
           | c0 # _ \<Rightarrow> Inr (findComponentById c0 (or_empty (selectedComponentId st)))))"

text \<open>
  \<open>handleAddComponent\<close> of the enhanced page, as the state it sets: the new node becomes
  the only root of an empty page and otherwise the last child of the first root. No check
  stands between the request and the \<open>push\<close>. What the \<open>push\<close> does to the trees held
  before the call is the subject of the store model further down.
\<close>

definition handleAddComponent ::
  "string \<Rightarrow> string \<Rightarrow> string \<Rightarrow> editor \<Rightarrow> error \<times> editor + editor" where
  "handleAddComponent now rnd t st =
     (case currentPage st of
        None \<Rightarrow> Inr st
      | Some cp \<Rightarrow>
          (case createDefaultComponent now rnd t of
             Inl e \<Rightarrow> Inl (e, st)
           | Inr newComponent \<Rightarrow>
               Inr (st\<lparr>pages :=
                         map (\<lambda>p. if id_pg p \<noteq> currentPageId st then p
                                  else p\<lparr>components :=
                                         (case components p of
                                            [] \<Rightarrow> [newComponent]
                                          | c0 # rest \<Rightarrow>
                                              spread_children newComponent c0 # rest)\<rparr>)
                           (pages st),
                       selectedComponentId := Some (id_c newComponent),
                       toasts := toasts st @ [ToastSuccess (''Added '' @ t @ '' component'')]\<rparr>)))"

text \<open>
  \<open>handleAddChild\<close>: the parent is looked up in the first root of the current page and
  the child kind is checked with \<open>canContainWidget\<close>; on rejection the notice is
  \<open>`${parent?.type} cannot contain ${childType}`\<close> and nothing else is set.
\<close>

definition handleAddChild ::
  "string \<Rightarrow> string \<Rightarrow> string \<Rightarrow> string \<Rightarrow> editor \<Rightarrow> error \<times> editor + editor" where
  "handleAddChild now rnd parentId childType st =
     (case currentPage st of
        None \<Rightarrow> Inr st
      | Some cp \<Rightarrow>
          (case components cp of
             [] \<Rightarrow> Inl (TypeError, st)
           | c0 # _ \<Rightarrow>
               (case findComponentById c0 parentId of
                  None \<Rightarrow>
                    Inr (st\<lparr>toasts := toasts st @
                              [ToastError (''undefined'' @ '' cannot contain '' @ childType)]\<rparr>)
                | Some parent \<Rightarrow>
                    if \<not> canContainWidget (type_c parent) childType
                    then Inr (st\<lparr>toasts := toasts st @
                              [ToastError (type_c parent @ '' cannot contain '' @ childType)]\<rparr>)
                    else
                      (case createDefaultComponent now rnd childType of
                         Inl e \<Rightarrow> Inl (e, st)
                       | Inr newChild \<Rightarrow>
                           Inr (st\<lparr>pages :=
                                     map (\<lambda>p. if id_pg p \<noteq> currentPageId st then p
                                              else p\<lparr>components :=
                                                     updateComponentInTree (components p)
                                                       parentId (spread_children newChild)\<rparr>)
                                       (pages st),
                                   selectedComponentId := Some (id_c newChild),
                                   toasts := toasts st @
                                     [ToastSuccess (''Added '' @ childType @ '' to '' @
                                        type_c parent)]\<rparr>)))))"

definition handleUpdateProps :: "props_map \<Rightarrow> editor \<Rightarrow> error \<times> editor + editor" where
  "handleUpdateProps P st =
     (case selectedComponentId st of
        None \<Rightarrow> Inr st
      | Some sel \<Rightarrow>
          if sel = [] \<or> currentPage st = None then Inr st
          else Inr (st\<lparr>pages :=
                         map (\<lambda>p. if id_pg p \<noteq> currentPageId st then p
                                  else p\<lparr>components :=
                                         updateComponentInTree (components p) sel
                                           (spread_props P)\<rparr>)
                           (pages st)\<rparr>))"




text \<open>
  \<open>handleDeletePage\<close>: \<open>setPages(updated)\<close> comes before \<open>updated[0].id\<close> is read, so
  when the filter leaves nothing and the deleted identifier is the current one, the
  TypeError is thrown with the page list already set to the empty list.
\<close>

definition handleDeletePage :: "string \<Rightarrow> editor \<Rightarrow> error \<times> editor + editor" where
  "handleDeletePage i st =
     (if length (pages st) = 1
      then Inr (st\<lparr>toasts := toasts st @ [ToastError ''You must have at least one page'']\<rparr>)
      else
        (let updated = filter (\<lambda>p. id_pg p \<noteq> i) (pages st) in
         if currentPageId st = i
         then (case updated of
                 [] \<Rightarrow> Inl (TypeError, st\<lparr>pages := updated\<rparr>)
               | p0 # _ \<Rightarrow>
                   Inr (st\<lparr>pages := updated, currentPageId := id_pg p0,
                           toasts := toasts st @ [ToastSuccess ''Page deleted'']\<rparr>))
         else Inr (st\<lparr>pages := updated,
                     toasts := toasts st @ [ToastSuccess ''Page deleted'']\<rparr>)))"

section \<open>JSON text: JSON.stringify(value, null, 2) and JSON.parse\<close>

text \<open>
  \<open>handleExportJSON\<close> renders its document with \<open>JSON.stringify(jsonData, null, 2)\<close>,
  and what \<open>loadProject\<close> receives has been parsed from JSON text. Both are functions of
  the platform; they are written out here after the ECMAScript definition
  (\<open>SerializeJSONProperty\<close>, \<open>QuoteJSONString\<close>, the JSON grammar), for the values
  of the model and for strings of 8-bit characters. An \<open>undefined\<close> property is left
  out, an \<open>undefined\<close> array element and a non-finite number are written as \<open>null\<close>,
  and \<open>-0\<close> is written as \<open>0\<close>.
\<close>

subsection \<open>Number to text\<close>

text \<open>
  \<open>Number::toString\<close>. \<open>show_natural\<close> writes the decimal digits of an integer that
  is not negative. \<open>show_decimal m f\<close> writes \<open>m / 10 ^ f\<close>: the digits before the
  point, the point and \<open>f\<close> digits after it while the number is at least \<open>10\<^sup>-\<^sup>6\<close>,
  and below that the exponent form, \<open>1.5e-7\<close>.
\<close>

definition digit_char :: "nat \<Rightarrow> char" where
  "digit_char d = char_of (48 + d)"

function show_natural :: "int \<Rightarrow> string" where
  "show_natural n =
     (if n < 10 then [digit_char (nat n)]
      else show_natural (n div 10) @ [digit_char (nat (n mod 10))])"
  by pat_completeness auto

termination
  by (relation "measure nat") auto

declare show_natural.simps [simp del]

definition show_int :: "int \<Rightarrow> string" where
  "show_int n = (if n < 0 then CHR ''-'' # show_natural (- n) else show_natural n)"

primrec frac_digits :: "nat \<Rightarrow> int \<Rightarrow> string" where
  "frac_digits 0 r = []"
| "frac_digits (Suc f) r = frac_digits f (r div 10) @ [digit_char (nat (r mod 10))]"

definition show_decimal :: "int \<Rightarrow> nat \<Rightarrow> string" where
  "show_decimal m f =
     (let a = \<bar>m\<bar>; ds = show_natural a
      in (if m < 0 then ''-'' else [])
         @ (if 10 ^ f \<le> a * 10 ^ 6
            then show_natural (a div 10 ^ f) @ CHR ''.'' # frac_digits f a
            else hd ds # (if tl ds = [] then [] else CHR ''.'' # tl ds)
                 @ ''e-'' @ show_natural (int (Suc f) - int (length ds))))"

subsection \<open>QuoteJSONString\<close>

definition hexdigit :: "nat \<Rightarrow> char" where
  "hexdigit d = (if d < 10 then char_of (48 + d) else char_of (87 + d))"

definition escape_char :: "char \<Rightarrow> string" where
  "escape_char c =
     (if c = CHR 0x08 then [CHR 0x5C, CHR ''b'']
      else if c = CHR 0x09 then [CHR 0x5C, CHR ''t'']
      else if c = CHR 0x0A then [CHR 0x5C, CHR ''n'']
      else if c = CHR 0x0C then [CHR 0x5C, CHR ''f'']
      else if c = CHR 0x0D then [CHR 0x5C, CHR ''r'']
      else if c = CHR 0x22 then [CHR 0x5C, CHR 0x22]
      else if c = CHR 0x5C then [CHR 0x5C, CHR 0x5C]
      else if of_char c < (32::nat)
        then [CHR 0x5C, CHR ''u'', CHR ''0'', CHR ''0'',
              hexdigit (of_char c div 16), hexdigit (of_char c mod 16)]
      else [c])"

definition QuoteJSONString :: "string \<Rightarrow> string" where
  "QuoteJSONString s = CHR 0x22 # concat (map escape_char s) @ [CHR 0x22]"

subsection \<open>SerializeJSONProperty with gap of two spaces\<close>

definition gap :: string where
  "gap = ''  ''"

fun join :: "string \<Rightarrow> string list \<Rightarrow> string" where
  "join sep [] = []"
| "join sep [x] = x"
| "join sep (x # y # ys) = x @ sep @ join sep (y # ys)"

definition wrap :: "char \<Rightarrow> char \<Rightarrow> string \<Rightarrow> string list \<Rightarrow> string" where
  "wrap opn cls stepback partial =
     (if partial = [] then [opn, cls]
      else opn # CHR 0x0A # (stepback @ gap)
           @ join (CHR '','' # CHR 0x0A # (stepback @ gap)) partial
           @ CHR 0x0A # stepback @ [cls])"

fun SerializeJSONProperty :: "string \<Rightarrow> jsvalue \<Rightarrow> string option"
  and SerializeJSONArray :: "string \<Rightarrow> jsvalue list \<Rightarrow> string list"
  and SerializeJSONObject :: "string \<Rightarrow> (string \<times> jsvalue) list \<Rightarrow> string list" where
  "SerializeJSONProperty ind JUndefined = None"
| "SerializeJSONProperty ind JNull = Some ''null''"
| "SerializeJSONProperty ind (JBoolean b) = Some (if b then ''true'' else ''false'')"
| "SerializeJSONProperty ind (JNumber n) = Some (show_int n)"
| "SerializeJSONProperty ind (JDecimal m f) = Some (show_decimal m f)"
| "SerializeJSONProperty ind JNegativeZero = Some ''0''"
| "SerializeJSONProperty ind (JNonFinite x) = Some ''null''"
| "SerializeJSONProperty ind (JString s) = Some (QuoteJSONString s)"
| "SerializeJSONProperty ind (JArray xs) =
     Some (wrap CHR ''['' CHR '']'' ind (SerializeJSONArray (ind @ gap) xs))"
| "SerializeJSONProperty ind (JObject ps) =
     Some (wrap CHR ''{'' CHR ''}'' ind (SerializeJSONObject (ind @ gap) ps))"
| "SerializeJSONArray ind [] = []"
| "SerializeJSONArray ind (x # xs) =
     (case SerializeJSONProperty ind x of None \<Rightarrow> ''null'' | Some s \<Rightarrow> s)
       # SerializeJSONArray ind xs"
| "SerializeJSONObject ind [] = []"
| "SerializeJSONObject ind ((k, v) # ps) =
     (case SerializeJSONProperty ind v of
        None \<Rightarrow> SerializeJSONObject ind ps
      | Some s \<Rightarrow> (QuoteJSONString k @ '': '' @ s) # SerializeJSONObject ind ps)"

definition JSON_stringify :: "jsvalue \<Rightarrow> string option" where
  "JSON_stringify v = SerializeJSONProperty [] v"

subsection \<open>JSON.parse\<close>

text \<open>
  A recursive-descent reading of the JSON grammar. \<open>SyntaxError\<close> is the exception of
  \<open>JSON.parse\<close>. \<open>OutOfModel\<close> marks a text whose value is no value of the model: a
  number with an exponent, with more than 15 significant digits or below \<open>10\<^sup>-\<^sup>6\<close>, an
  integer beyond the safe range, or a \<open>\u\<close> escape above \<open>00ff\<close>. A fraction is
  read without its closing zeros, so that \<open>14.50\<close> is \<open>JDecimal 145 1\<close> and
  \<open>1.0\<close> is \<open>JNumber 1\<close>. The first argument of \<open>parse_value\<close> bounds the
  depth of the calls; \<open>JSON_parse\<close> starts with more than the length of the text.
  Members are entered into the object in text order, each one as a property write: a
  repeated key overwrites the earlier value.
\<close>

datatype parse_error = SyntaxError | OutOfModel | OutOfFuel

definition is_ws :: "char \<Rightarrow> bool" where
  "is_ws c = (c = CHR '' '' \<or> c = CHR 0x09 \<or> c = CHR 0x0A \<or> c = CHR 0x0D)"

definition skip_ws :: "string \<Rightarrow> string" where
  "skip_ws s = dropWhile is_ws s"

definition MAX_SAFE_INTEGER :: int where
  "MAX_SAFE_INTEGER = 9007199254740991"

definition strip_zeros :: "string \<Rightarrow> string" where
  "strip_zeros ds = rev (dropWhile (\<lambda>c. c = CHR ''0'') (rev ds))"

definition exponent_follows :: "string \<Rightarrow> bool" where
  "exponent_follows rest =
     (case rest of [] \<Rightarrow> False | e # _ \<Rightarrow> e = CHR ''e'' \<or> e = CHR ''E'')"

definition integer_result :: "bool \<Rightarrow> string \<Rightarrow> string \<Rightarrow> parse_error + jsvalue \<times> string" where
  "integer_result neg ds rest =
     (let n = read_digits ds
      in if MAX_SAFE_INTEGER < n then Inl OutOfModel
         else if neg \<and> n = 0 then Inr (JNegativeZero, rest)
         else Inr (JNumber (if neg then - n else n), rest))"

definition parse_fraction :: "bool \<Rightarrow> string \<Rightarrow> string \<Rightarrow> parse_error + jsvalue \<times> string" where
  "parse_fraction neg ds s =
     (let fds = takeWhile is_digit s; rest = dropWhile is_digit s
      in if fds = [] then Inl SyntaxError
         else if exponent_follows rest then Inl OutOfModel
         else
           (let fs = strip_zeros fds; f = length fs;
                m = read_digits ds * 10 ^ f + read_digits fs
            in if fs = [] then integer_result neg ds rest
               else if 10 ^ 15 \<le> m \<or> m * 10 ^ 6 < 10 ^ f then Inl OutOfModel
               else Inr (JDecimal (if neg then - m else m) f, rest)))"

definition split_integer :: "string \<Rightarrow> string \<times> string" where
  "split_integer s =
     (case s of
        [] \<Rightarrow> ([], [])
      | c # r \<Rightarrow>
          if c = CHR ''0'' then ([c], r) else (takeWhile is_digit s, dropWhile is_digit s))"

definition parse_digits :: "bool \<Rightarrow> string \<Rightarrow> parse_error + jsvalue \<times> string" where
  "parse_digits neg s =
     (case split_integer s of
        ([], rest) \<Rightarrow> Inl SyntaxError
      | (ds, []) \<Rightarrow> integer_result neg ds []
      | (ds, d # rest1) \<Rightarrow>
          if d = CHR ''.'' then parse_fraction neg ds rest1
          else if exponent_follows (d # rest1) then Inl OutOfModel
          else integer_result neg ds (d # rest1))"

definition parse_number :: "string \<Rightarrow> parse_error + jsvalue \<times> string" where
  "parse_number s =
     (case s of
        [] \<Rightarrow> Inl SyntaxError
      | c # r \<Rightarrow> if c = CHR ''-'' then parse_digits True r else parse_digits False s)"

definition hexval :: "char \<Rightarrow> nat option" where
  "hexval c =
     (let n = (of_char c :: nat)
      in if 48 \<le> n \<and> n < 58 then Some (n - 48)
         else if 97 \<le> n \<and> n < 103 then Some (n - 87)
         else if 65 \<le> n \<and> n < 71 then Some (n - 55)
         else None)"

definition unescape :: "char \<Rightarrow> char option" where
  "unescape e =
     (if e = CHR 0x22 then Some (CHR 0x22)
      else if e = CHR 0x5C then Some (CHR 0x5C)
      else if e = CHR ''/'' then Some (CHR ''/'')
      else if e = CHR ''b'' then Some (CHR 0x08)
      else if e = CHR ''f'' then Some (CHR 0x0C)
      else if e = CHR ''n'' then Some (CHR 0x0A)
      else if e = CHR ''r'' then Some (CHR 0x0D)
      else if e = CHR ''t'' then Some (CHR 0x09)
      else None)"

fun parse_string :: "string \<Rightarrow> parse_error + string \<times> string" where
  "parse_string [] = Inl SyntaxError"
| "parse_string (c # cs) =
     (if c = CHR 0x22 then Inr ([], cs)
      else if c = CHR 0x5C then
        (case cs of
           [] \<Rightarrow> Inl SyntaxError
         | e # cs1 \<Rightarrow>
             if e = CHR ''u'' then
               (case cs1 of
                  h1 # h2 # h3 # h4 # cs2 \<Rightarrow>
                    (case (hexval h1, hexval h2, hexval h3, hexval h4) of
                       (Some a, Some b, Some c, Some d) \<Rightarrow>
                         if a \<noteq> 0 \<or> b \<noteq> 0 then Inl OutOfModel
                         else (case parse_string cs2 of
                                 Inl err \<Rightarrow> Inl err
                               | Inr (s, r) \<Rightarrow> Inr (char_of (16 * c + d) # s, r))
                     | _ \<Rightarrow> Inl SyntaxError)
                | _ \<Rightarrow> Inl SyntaxError)
             else
               (case unescape e of
                  None \<Rightarrow> Inl SyntaxError
                | Some ch \<Rightarrow>
                    (case parse_string cs1 of
                       Inl err \<Rightarrow> Inl err
                     | Inr (s, r) \<Rightarrow> Inr (ch # s, r))))
      else if (of_char c :: nat) < 32 then Inl SyntaxError
      else (case parse_string cs of
              Inl err \<Rightarrow> Inl err
            | Inr (s, r) \<Rightarrow> Inr (c # s, r)))"

definition parse_literal :: "string \<Rightarrow> parse_error + jsvalue \<times> string" where
  "parse_literal s =
     (if take 4 s = ''true'' then Inr (JBoolean True, drop 4 s)
      else if take 5 s = ''false'' then Inr (JBoolean False, drop 5 s)
      else if take 4 s = ''null'' then Inr (JNull, drop 4 s)
      else Inl SyntaxError)"

fun parse_value :: "nat \<Rightarrow> string \<Rightarrow> parse_error + jsvalue \<times> string"
  and parse_elements :: "nat \<Rightarrow> string \<Rightarrow> parse_error + jsvalue list \<times> string"
  and parse_members :: "nat \<Rightarrow> string \<Rightarrow> parse_error + (string \<times> jsvalue) list \<times> string" where
  "parse_value 0 s = Inl OutOfFuel"
| "parse_value (Suc n) s =
     (case s of
        [] \<Rightarrow> Inl SyntaxError
      | c # r \<Rightarrow>
          if c = CHR ''['' then
            (case skip_ws r of
               [] \<Rightarrow> Inl SyntaxError
             | d # r1 \<Rightarrow>
                 if d = CHR '']'' then Inr (JArray [], r1)
                 else (case parse_elements n (d # r1) of
                         Inl err \<Rightarrow> Inl err
                       | Inr (vs, r2) \<Rightarrow> Inr (JArray vs, r2)))
          else if c = CHR ''{'' then
            (case skip_ws r of
               [] \<Rightarrow> Inl SyntaxError
             | d # r1 \<Rightarrow>
                 if d = CHR ''}'' then Inr (JObject [], r1)
                 else (case parse_members n (d # r1) of
                         Inl err \<Rightarrow> Inl err
                       | Inr (ms, r2) \<Rightarrow>
                           Inr (JObject (foldl (\<lambda>ob (k, v). set_prop k v ob) [] ms), r2)))
          else if c = CHR 0x22 then
            (case parse_string r of
               Inl err \<Rightarrow> Inl err
             | Inr (str, r1) \<Rightarrow> Inr (JString str, r1))
          else if c = CHR ''-'' \<or> is_digit c then parse_number s
          else parse_literal s)"
| "parse_elements 0 s = Inl OutOfFuel"
| "parse_elements (Suc n) s =
     (case parse_value n s of
        Inl err \<Rightarrow> Inl err
      | Inr (v, r) \<Rightarrow>
          (case skip_ws r of
             [] \<Rightarrow> Inl SyntaxError
           | d # r1 \<Rightarrow>
               if d = CHR '','' then
                 (case parse_elements n (skip_ws r1) of
                    Inl err \<Rightarrow> Inl err
                  | Inr (vs, r2) \<Rightarrow> Inr (v # vs, r2))
               else if d = CHR '']'' then Inr ([v], r1)
               else Inl SyntaxError))"
| "parse_members 0 s = Inl OutOfFuel"
| "parse_members (Suc n) s =
     (case s of
        [] \<Rightarrow> Inl SyntaxError
      | q # r \<Rightarrow>
          if q \<noteq> CHR 0x22 then Inl SyntaxError
          else
            (case parse_string r of
               Inl err \<Rightarrow> Inl err
             | Inr (k, r1) \<Rightarrow>
                 (case skip_ws r1 of
                    [] \<Rightarrow> Inl SyntaxError
                  | c # r2 \<Rightarrow>
                      if c \<noteq> CHR '':'' then Inl SyntaxError
                      else
                        (case parse_value n (skip_ws r2) of
                           Inl err \<Rightarrow> Inl err
                         | Inr (v, r3) \<Rightarrow>
                             (case skip_ws r3 of
                                [] \<Rightarrow> Inl SyntaxError
                              | d # r4 \<Rightarrow>
                                  if d = CHR '','' then
                                    (case parse_members n (skip_ws r4) of
                                       Inl err \<Rightarrow> Inl err
                                     | Inr (ms, r5) \<Rightarrow> Inr ((k, v) # ms, r5))
                                  else if d = CHR ''}'' then Inr ([(k, v)], r4)
                                  else Inl SyntaxError)))))"

definition JSON_parse :: "string \<Rightarrow> parse_error + jsvalue" where
  "JSON_parse text =
     (case parse_value (Suc (length text)) (skip_ws text) of
        Inl err \<Rightarrow> Inl err
      | Inr (v, r) \<Rightarrow> if skip_ws r = [] then Inr v else Inl SyntaxError)"


subsection \<open>Values that JSON text carries\<close>






section \<open>The exported document and its reload\<close>

text \<open>
  A component node is the plain object \<open>{ id, type, props, children }\<close>, with the keys
  in the order in which \<open>createDefaultComponent\<close> and the spreads of the updaters write
  them, and with the four fields of its interface only.
\<close>

fun node_to_js :: "ComponentNode \<Rightarrow> jsvalue" where
  "node_to_js (ComponentNode i t p cs) =
     JObject [(''id'', JString i), (''type'', JString t), (''props'', JObject p),
              (''children'', JArray (map node_to_js cs))]"

text \<open>
  \<open>handleExportJSON\<close>: the object literal \<open>jsonData\<close> and its text \<open>dataStr\<close>, which
  goes into the downloaded file (\<open>handleSaveProject\<close> builds the same \<open>screens\<close>).
  \<open>app_name\<close> is derived from the project name with string built-ins and is an input
  here. \<open>JSON.stringify\<close> of an object is a string; were it \<open>undefined\<close>, the Blob
  would hold the text \<open>undefined\<close>.
\<close>

definition page_to_js :: "PageData \<Rightarrow> jsvalue" where
  "page_to_js page =
     JObject [(''id'', JString (id_pg page)), (''name'', JString (name_pg page)),
              (''route'', JString (route page)), (''is_home'', JBoolean (is_home page)),
              (''components'', JArray (map node_to_js (components page)))]"

definition jsonData :: "string \<Rightarrow> PageData list \<Rightarrow> jsvalue" where
  "jsonData appName ps =
     JObject [(''app_name'', JString appName), (''package_name'', JString ''com.example.app''),
              (''screens'', JArray (map page_to_js ps))]"

definition handleExportJSON :: "string \<Rightarrow> PageData list \<Rightarrow> string" where
  "handleExportJSON appName ps =
     (case JSON_stringify (jsonData appName ps) of
        Some dataStr \<Rightarrow> dataStr
      | None \<Rightarrow> ''undefined'')"

text \<open>
  Reading a received value at the types the page declares. \<open>node_of_js\<close> is the
  \<open>ComponentNode\<close> a plain object is taken for: its \<open>id\<close> and \<open>type\<close> must be
  strings, \<open>props\<close> an object and \<open>children\<close> an array of such objects; \<open>None\<close> for a
  value that does not fit the TypeScript type, which the typed state of the model cannot
  hold.
\<close>

fun node_of_js :: "jsvalue \<Rightarrow> ComponentNode option"
  and nodes_of_js :: "jsvalue list \<Rightarrow> ComponentNode list option"
  and children_of_js :: "(string \<times> jsvalue) list \<Rightarrow> ComponentNode list option" where
  "node_of_js (JObject fs) =
     (case (map_of fs ''id'', map_of fs ''type'', map_of fs ''props'', children_of_js fs) of
        (Some (JString i), Some (JString t), Some (JObject p), Some kids) \<Rightarrow>
          Some (ComponentNode i t p kids)
      | _ \<Rightarrow> None)"
| "node_of_js v = None"
| "nodes_of_js [] = Some []"
| "nodes_of_js (x # xs) =
     (case node_of_js x of
        None \<Rightarrow> None
      | Some n \<Rightarrow> (case nodes_of_js xs of None \<Rightarrow> None | Some ns \<Rightarrow> Some (n # ns)))"
| "children_of_js [] = None"
| "children_of_js ((k, JArray xs) # fs) =
     (if k = ''children'' then nodes_of_js xs else children_of_js fs)"
| "children_of_js ((k, v) # fs) = (if k = ''children'' then None else children_of_js fs)"

text \<open>A property read gives \<open>undefined\<close> for a key the object does not have.\<close>

definition get_prop :: "(string \<times> jsvalue) list \<Rightarrow> string \<Rightarrow> jsvalue" where
  "get_prop fs k = (case map_of fs k of None \<Rightarrow> JUndefined | Some v \<Rightarrow> v)"

definition truthy :: "jsvalue \<Rightarrow> bool" where
  "truthy v =
     (case v of
        JUndefined \<Rightarrow> False
      | JNull \<Rightarrow> False
      | JBoolean b \<Rightarrow> b
      | JNumber n \<Rightarrow> n \<noteq> 0
      | JDecimal m f \<Rightarrow> m \<noteq> 0
      | JNegativeZero \<Rightarrow> False
      | JNonFinite x \<Rightarrow> x \<noteq> NaN
      | JString s \<Rightarrow> s \<noteq> []
      | JArray xs \<Rightarrow> True
      | JObject fs \<Rightarrow> True)"

text \<open>
  \<open>proj.json_data.screens.map((screen) => ({ id: screen.id, ..., components:
  screen.components || [createDefaultComponent('Scaffold')] }))\<close>, one screen after the
  other. A screen that is \<open>null\<close> or \<open>undefined\<close> throws at \<open>screen.id\<close>. Each
  fallback root draws its own clock reading and random suffix; \<open>fresh k\<close> supplies them
  for the screen at index \<open>k\<close>. The outer \<open>None\<close> again stands for a value outside
  the declared types.
\<close>

definition load_components ::
  "string \<times> string \<Rightarrow> jsvalue \<Rightarrow> (error + ComponentNode list) option" where
  "load_components fr v =
     (if \<not> truthy v then
        (case createDefaultComponent (fst fr) (snd fr) ''Scaffold'' of
           Inl e \<Rightarrow> Some (Inl e)
         | Inr c \<Rightarrow> Some (Inr [c]))
      else (case v of
              JArray xs \<Rightarrow> map_option Inr (nodes_of_js xs)
            | _ \<Rightarrow> None))"

fun loadScreens ::
  "(nat \<Rightarrow> string \<times> string) \<Rightarrow> nat \<Rightarrow> jsvalue list \<Rightarrow> (error + PageData list) option" where
  "loadScreens fresh k [] = Some (Inr [])"
| "loadScreens fresh k (JObject fs # rest) =
     (case (get_prop fs ''id'', get_prop fs ''name'', get_prop fs ''route'',
            get_prop fs ''is_home'', load_components (fresh k) (get_prop fs ''components'')) of
        (JString i, JString n, JString r, JBoolean h, Some (Inl e)) \<Rightarrow> Some (Inl e)
      | (JString i, JString n, JString r, JBoolean h, Some (Inr cs)) \<Rightarrow>
          (case loadScreens fresh (Suc k) rest of
             None \<Rightarrow> None
           | Some (Inl e) \<Rightarrow> Some (Inl e)
           | Some (Inr ps) \<Rightarrow>
               Some (Inr (\<lparr>id_pg = i, name_pg = n, route = r, is_home = h,
                           components = cs\<rparr> # ps)))
      | _ \<Rightarrow> None)"
| "loadScreens fresh k (JNull # rest) = Some (Inl TypeError)"
| "loadScreens fresh k (JUndefined # rest) = Some (Inl TypeError)"
| "loadScreens fresh k (v # rest) = None"

text \<open>
  \<open>fromDocument\<close> is the page list \<open>loadProject\<close> hands to \<open>setPages\<close>; \<open>Inr None\<close>
  when \<open>json_data.screens\<close> is no array and the pages are left as they were.
\<close>

definition fromDocument ::
  "(nat \<Rightarrow> string \<times> string) \<Rightarrow> jsvalue \<Rightarrow> (error + PageData list option) option" where
  "fromDocument fresh json_data =
     (case json_data of
        JObject fs \<Rightarrow>
          (case get_prop fs ''screens'' of
             JArray scs \<Rightarrow>
               (case loadScreens fresh 0 scs of
                  None \<Rightarrow> None
                | Some (Inl e) \<Rightarrow> Some (Inl e)
                | Some (Inr ps) \<Rightarrow> Some (Inr (Some ps)))
           | _ \<Rightarrow> Some (Inr None))
      | JNull \<Rightarrow> Some (Inl TypeError)
      | JUndefined \<Rightarrow> Some (Inl TypeError)
      | _ \<Rightarrow> Some (Inr None))"

text \<open>
  \<open>loadProject\<close> wraps the reading in \<open>try\<close>/\<open>catch\<close>: an exception raises the
  notice \<open>Failed to load project\<close> and sets no page.
\<close>

definition loadProject ::
  "(nat \<Rightarrow> string \<times> string) \<Rightarrow> jsvalue \<Rightarrow> editor \<Rightarrow> editor option" where
  "loadProject fresh json_data st =
     (case fromDocument fresh json_data of
        None \<Rightarrow> None
      | Some (Inl e) \<Rightarrow> Some (st\<lparr>toasts := toasts st @ [ToastError ''Failed to load project'']\<rparr>)
      | Some (Inr None) \<Rightarrow> Some st
      | Some (Inr (Some loadedPages)) \<Rightarrow>
          Some (st\<lparr>pages := loadedPages,
                  currentPageId := (case loadedPages of [] \<Rightarrow> [] | p0 # _ \<Rightarrow> id_pg p0)\<rparr>))"





section \<open>Object identity: handleAddComponent of VisualBuilder.tsx on a store\<close>

text \<open>
  \<open>const updated = [...components]; updated[0].children.push(newComponent)\<close> copies
  the root array only; the node objects and their \<open>children\<close> arrays are the ones the
  old array refers to. To see that, node objects and arrays live in a store and are named
  by their addresses. An address is the position in the store; a new object goes to the
  end. JavaScript has no dangling reference, so \<open>DanglingReference\<close> is only there to keep
  every read total.
\<close>

type_synonym ref = nat

record node_obj =
  o_id :: string
  o_type :: string
  o_props :: props_map
  o_children :: ref

record heap =
  nodes :: "node_obj list"
  arrays :: "ref list list"

datatype heap_error = Thrown error | DanglingReference

definition node_at :: "heap \<Rightarrow> ref \<Rightarrow> node_obj option" where
  "node_at h a = (if a < length (nodes h) then Some (nodes h ! a) else None)"

definition array_at :: "heap \<Rightarrow> ref \<Rightarrow> ref list option" where
  "array_at h a = (if a < length (arrays h) then Some (arrays h ! a) else None)"

definition new_array :: "ref list \<Rightarrow> heap \<Rightarrow> ref \<times> heap" where
  "new_array elems h = (length (arrays h), h\<lparr>arrays := arrays h @ [elems]\<rparr>)"

definition new_node :: "node_obj \<Rightarrow> heap \<Rightarrow> ref \<times> heap" where
  "new_node ob h = (length (nodes h), h\<lparr>nodes := nodes h @ [ob]\<rparr>)"

text \<open>\<open>Array.prototype.push\<close>: the array at that address grows; its address stays.\<close>

definition array_push :: "ref \<Rightarrow> ref \<Rightarrow> heap \<Rightarrow> heap option" where
  "array_push a x h =
     (case array_at h a of
        None \<Rightarrow> None
      | Some elems \<Rightarrow> Some (h\<lparr>arrays := (arrays h)[a := elems @ [x]]\<rparr>))"

definition createDefaultComponent_heap ::
  "string \<Rightarrow> string \<Rightarrow> string \<Rightarrow> heap \<Rightarrow> heap_error + ref \<times> heap" where
  "createDefaultComponent_heap now rnd t h =
     (case createDefaultComponent now rnd t of
        Inl e \<Rightarrow> Inl (Thrown e)
      | Inr c \<Rightarrow>
          (let (kids, h1) = new_array [] h
           in Inr (new_node \<lparr>o_id = id_c c, o_type = type_c c, o_props = props c,
                             o_children = kids\<rparr> h1)))"

text \<open>
  The handler takes the address of the \<open>components\<close> array in the state and returns the
  address it passes to \<open>setComponents\<close>, with the store after the call.
\<close>

definition handleAddComponent_heap ::
  "string \<Rightarrow> string \<Rightarrow> string \<Rightarrow> ref \<Rightarrow> heap \<Rightarrow> heap_error + ref \<times> heap" where
  "handleAddComponent_heap now rnd t comps h =
     (case createDefaultComponent_heap now rnd t h of
        Inl e \<Rightarrow> Inl e
      | Inr (newComponent, h1) \<Rightarrow>
          (case array_at h1 comps of
             None \<Rightarrow> Inl DanglingReference
           | Some [] \<Rightarrow> Inr (new_array [newComponent] h1)
           | Some (first # rest) \<Rightarrow>
               (let (updated, h2) = new_array (first # rest) h1
                in case node_at h2 first of
                     None \<Rightarrow> Inl DanglingReference
                   | Some ob \<Rightarrow>
                       (case array_push (o_children ob) newComponent h2 of
                          None \<Rightarrow> Inl DanglingReference
                        | Some h3 \<Rightarrow> Inr (updated, h3)))))"

text \<open>
  What a holder of an address sees: the tree under a node address and the root list under
  an array address, read to a given depth (\<open>None\<close> when the depth does not suffice).
\<close>

fun tree_at :: "nat \<Rightarrow> heap \<Rightarrow> ref \<Rightarrow> ComponentNode option" where
  "tree_at 0 h a = None"
| "tree_at (Suc n) h a =
     (case node_at h a of
        None \<Rightarrow> None
      | Some ob \<Rightarrow>
          (case array_at h (o_children ob) of
             None \<Rightarrow> None
           | Some kids \<Rightarrow>
               (case those (map (tree_at n h) kids) of
                  None \<Rightarrow> None
                | Some cs \<Rightarrow> Some (ComponentNode (o_id ob) (o_type ob) (o_props ob) cs))))"

definition forest_at :: "nat \<Rightarrow> heap \<Rightarrow> ref \<Rightarrow> ComponentNode list option" where
  "forest_at n h a =
     (case array_at h a of None \<Rightarrow> None | Some roots \<Rightarrow> those (map (tree_at n h) roots))"

section \<open>Sample inputs\<close>

definition sample_tree :: ComponentNode where
  "sample_tree =
     ComponentNode ''root'' ''Column'' []
       [ComponentNode ''a'' ''Text'' [(''text'', JString ''hi''), (''fontSize'', JNumber 14)] [],
        ComponentNode ''b'' ''Row'' [] [ComponentNode ''c'' ''Icon'' [] []]]"



text \<open>A page whose only root is a Text node, with a selection left over from another page.\<close>

definition text_root :: editor where
  "text_root =
     \<lparr>pages = [\<lparr>id_pg = ''page_1'', name_pg = ''Home'', route = ''/'', is_home = True,
                 components = [ComponentNode ''Text-1-a'' ''Text'' [] []]\<rparr>],
      currentPageId = ''page_1'', selectedComponentId = Some ''ghost'', toasts = []\<rparr>"

text \<open>
  The state of the enhanced page before a project is loaded, a clock reading and random
  suffix for the fallback roots, and a document whose two screens carry the same
  identifier, with the state after loading it.
\<close>

definition empty_editor :: editor where
  "empty_editor =
     \<lparr>pages = [], currentPageId = [], selectedComponentId = None, toasts = []\<rparr>"

definition fresh0 :: "nat \<Rightarrow> string \<times> string" where
  "fresh0 k = (''17'', ''abc'')"

definition dup_document :: jsvalue where
  "dup_document =
     JObject
       [(''app_name'', JString ''my_app''), (''package_name'', JString ''com.example.app''),
        (''screens'',
         JArray
           [JObject
              [(''id'', JString ''home''), (''name'', JString ''Home''),
               (''route'', JString ''/''), (''is_home'', JBoolean True),
               (''components'',
                JArray [JObject [(''id'', JString ''Scaffold-1-a''),
                                 (''type'', JString ''Scaffold''), (''props'', JObject []),
                                 (''children'', JArray [])]])],
            JObject
              [(''id'', JString ''home''), (''name'', JString ''Profile''),
               (''route'', JString ''/profile''), (''is_home'', JBoolean False),
               (''components'',
                JArray [JObject [(''id'', JString ''Scaffold-2-b''),
                                 (''type'', JString ''Scaffold''), (''props'', JObject []),
                                 (''children'', JArray [])]])]])]"

definition dup_pages :: editor where
  "dup_pages =
     \<lparr>pages = [\<lparr>id_pg = ''home'', name_pg = ''Home'', route = ''/'', is_home = True,
                 components = [ComponentNode ''Scaffold-1-a'' ''Scaffold'' [] []]\<rparr>,
               \<lparr>id_pg = ''home'', name_pg = ''Profile'', route = ''/profile'',
                 is_home = False,
                 components = [ComponentNode ''Scaffold-2-b'' ''Scaffold'' [] []]\<rparr>],
      currentPageId = ''home'', selectedComponentId = None, toasts = []\<rparr>"




text \<open>A project with property values that JSON text does not carry.\<close>

definition lossy_project :: "PageData list" where
  "lossy_project =
     [\<lparr>id_pg = ''page_1'', name_pg = ''Home'', route = ''/'', is_home = True,
       components =
         [ComponentNode ''Text-1-a'' ''Text''
            [(''text'', JUndefined), (''fontSize'', JNonFinite NaN), (''flex'', JNegativeZero)]
            []]\<rparr>]"

text \<open>
  The store of a new project in VisualBuilder.tsx: the \<open>components\<close> array at address 0
  holds one Scaffold node, whose empty \<open>children\<close> array is at address 1.
\<close>

definition heap0 :: heap where
  "heap0 =
     \<lparr>nodes = [\<lparr>o_id = ''Scaffold-1-a'', o_type = ''Scaffold'', o_props = [],
                 o_children = 1\<rparr>],
      arrays = [[0], []]\<rparr>"

section \<open>Containment check\<close>

lemma getWidgetDefinition_ListView: "getWidgetDefinition ''ListView'' = Definition w_ListView"
  by (simp add: getWidgetDefinition_def FLUTTER_WIDGETS_def)

lemma getWidgetDefinition_Text: "getWidgetDefinition ''Text'' = Definition w_Text"
  by (simp add: getWidgetDefinition_def FLUTTER_WIDGETS_def)

text \<open>
  C1 (as stated, refuted): the claim says that every kind declared with
  \<open>canHaveChildren = false\<close> contains nothing. \<open>ListView\<close> is declared with
  \<open>canHaveChildren = false\<close>, and \<open>canContainWidget\<close> answers \<open>true\<close> for it, by the
  early return \<open>if (parentType === 'ListView') return true\<close>.
\<close>

theorem C1_counterexample_ListView:
  "getWidgetDefinition ''ListView'' = Definition w_ListView
   \<and> canHaveChildren w_ListView = False
   \<and> canContainWidget ''ListView'' ''Text''"
  by (simp add: canContainWidget_def getWidgetDefinition_ListView w_ListView_def)

text \<open>
  C1 (amended): for every kind \<open>K\<close> other than \<open>ListView\<close> whose definition has
  \<open>canHaveChildren = false\<close>, and every child kind \<open>C\<close>, \<open>canContainWidget K C\<close> is
  false; \<open>ListView\<close>, although declared with \<open>canHaveChildren = false\<close>, contains every
  child kind.
\<close>

theorem C1_leaf_kinds_contain_nothing_except_ListView:
  "(getWidgetDefinition K = Definition d \<and> \<not> canHaveChildren d \<and> K \<noteq> ''ListView''
      \<longrightarrow> \<not> canContainWidget K C)
   \<and> canContainWidget ''ListView'' C"
  by (simp add: canContainWidget_def getWidgetDefinition_ListView)

text \<open>C1, witness: \<open>Text\<close> is a leaf kind and contains no \<open>Container\<close>.\<close>

theorem C1_leaf_kinds_witness:
  "getWidgetDefinition ''Text'' = Definition w_Text \<and> \<not> canHaveChildren w_Text
   \<and> ''Text'' \<noteq> ''ListView'' \<and> \<not> canContainWidget ''Text'' ''Container''
   \<and> canContainWidget ''ListView'' ''Container''"
  using C1_leaf_kinds_contain_nothing_except_ListView [of "''Text''" w_Text "''Container''"]
  by (simp add: getWidgetDefinition_Text w_Text_def)

section \<open>Insertion and the containment check\<close>

text \<open>
  On the path \<open>handleAddChild\<close> a rejected child kind leaves pages and selection as they
  were and raises one notice that names the parent kind and the child kind.
\<close>

lemma handleAddChild_rejected:
  assumes "currentPage st = Some cp" and "components cp = c0 # rest"
    and "findComponentById c0 parentId = Some parent"
    and "\<not> canContainWidget (type_c parent) childType"
  shows "handleAddChild now rnd parentId childType st
           = Inr (st\<lparr>toasts := toasts st @
                    [ToastError (type_c parent @ '' cannot contain '' @ childType)]\<rparr>)"
  using assms by (simp add: handleAddChild_def)

text \<open>
  C2 (the code departs from the claim): on a page whose first root is a Text node, the
  containment check rejects a Text child under that root, and \<open>handleAddChild\<close> raises
  \<open>Text cannot contain Text\<close> and changes nothing else. \<open>handleAddComponent\<close>, asked for
  a Text on the same page, never calls the check: it appends the Text node under the Text
  root and reports success.
\<close>

theorem C2_addComponent_skips_validator:
  "\<not> canContainWidget ''Text'' ''Text''
   \<and> handleAddChild ''2'' ''b'' ''Text-1-a'' ''Text'' text_root
       = Inr (text_root\<lparr>toasts := [ToastError ''Text cannot contain Text'']\<rparr>)
   \<and> handleAddComponent ''2'' ''b'' ''Text'' text_root
       = Inr (text_root
               \<lparr>pages := [\<lparr>id_pg = ''page_1'', name_pg = ''Home'', route = ''/'',
                  is_home = True,
                  components = [ComponentNode ''Text-1-a'' ''Text'' []
                                  [ComponentNode ''Text-2-b'' ''Text'' [] []]]\<rparr>],
                selectedComponentId := Some ''Text-2-b'',
                toasts := [ToastSuccess ''Added Text component'']\<rparr>)"
  by (simp add: handleAddChild_def handleAddComponent_def text_root_def currentPage_def
      canContainWidget_def createDefaultComponent_def getWidgetDefinition_Text w_Text_def
      spread_children_def)

section \<open>In-place mutation\<close>

text \<open>
  C3 (the code departs from the claim): in the store of a new project the caller holds
  the root array at address 0 and sees one Scaffold without children. After
  \<open>handleAddComponent\<close> of VisualBuilder.tsx for a Text, the new state is another array,
  and the caller's old array at address 0 now shows the Scaffold with a Text child: the
  tree passed in was changed in place.
\<close>

theorem C3_addComponent_mutates_old_tree:
  "forest_at 3 heap0 0 = Some [ComponentNode ''Scaffold-1-a'' ''Scaffold'' [] []]
   \<and> (case handleAddComponent_heap ''2'' ''b'' ''Text'' 0 heap0 of
        Inl e \<Rightarrow> False
      | Inr (updated, h) \<Rightarrow>
          updated \<noteq> 0
          \<and> forest_at 3 h 0 =
              Some [ComponentNode ''Scaffold-1-a'' ''Scaffold'' []
                      [ComponentNode ''Text-2-b'' ''Text'' [] []]]
          \<and> forest_at 3 h 0 \<noteq> forest_at 3 heap0 0)"
  by (simp add: forest_at_def heap0_def handleAddComponent_heap_def
      createDefaultComponent_heap_def createDefaultComponent_def getWidgetDefinition_Text
      w_Text_def new_array_def new_node_def array_at_def node_at_def array_push_def
      eval_nat_numeral)

section \<open>Default instances\<close>

lemma registered_defaultProps_None:
  assumes "getWidgetDefinition k = Definition d"
  shows "defaultProps d = None"
proof -
  from assms have "map_of FLUTTER_WIDGETS k = Some d"
    by (simp add: getWidgetDefinition_def split: option.splits if_splits)
  then have "(k, d) \<in> set FLUTTER_WIDGETS"
    by (rule map_of_SomeD)
  then have "d \<in> {w_Scaffold, w_AppBar, w_Container, w_Row, w_Column, w_Stack, w_Positioned,
      w_Expanded, w_SizedBox, w_Padding, w_Center, w_Card, w_ListView, w_Text, w_Button,
      w_TextField, w_Icon, w_Image}"
    by (auto simp: FLUTTER_WIDGETS_def)
  then show ?thesis
    by (auto simp: w_Scaffold_def w_AppBar_def w_Container_def w_Row_def w_Column_def
        w_Stack_def w_Positioned_def w_Expanded_def w_SizedBox_def w_Padding_def w_Center_def
        w_Card_def w_ListView_def w_Text_def w_Button_def w_TextField_def w_Icon_def
        w_Image_def)
qed

text \<open>
  C4 (as stated, refuted): the registry declares the default \<open>Hello World\<close> for the
  property \<open>text\<close> of \<open>Text\<close>, and a freshly created Text node has an empty props
  object, with no \<open>text\<close> key.
\<close>

theorem C4_counterexample_Text:
  "map_of (declaredDefaults w_Text) ''text'' = Some (JString ''Hello World'')
   \<and> createDefaultComponent ''1700000000000'' ''k3j9x0q2a'' ''Text''
       = Inr (ComponentNode ''Text-1700000000000-k3j9x0q2a'' ''Text'' [] [])
   \<and> map_of (props (ComponentNode ''Text-1700000000000-k3j9x0q2a'' ''Text'' [] [])) ''text''
       = None"
  by (simp add: createDefaultComponent_def getWidgetDefinition_Text declaredDefaults_def
      w_Text_def mkprop_def)

text \<open>
  C4 (amended): for every registered kind, \<open>createDefaultComponent\<close> returns a node of
  that kind with the generated identifier, an empty children list, and as props the
  \<open>defaultProps\<close> object of the definition when it declares one and the empty object
  otherwise; no registered kind declares \<open>defaultProps\<close>, so the props of every fresh
  node are empty.
\<close>

theorem C4_default_component_has_empty_props:
  "getWidgetDefinition k = Definition d \<longrightarrow>
     createDefaultComponent now rnd k
       = Inr (ComponentNode (k @ ''-'' @ now @ ''-'' @ rnd) k
                (case defaultProps d of Some dp \<Rightarrow> dp | None \<Rightarrow> []) [])
     \<and> defaultProps d = None
     \<and> createDefaultComponent now rnd k
         = Inr (ComponentNode (k @ ''-'' @ now @ ''-'' @ rnd) k [] [])"
  by (auto simp: createDefaultComponent_def dest: registered_defaultProps_None)

text \<open>C4, witness: a fresh Text node.\<close>

theorem C4_witness:
  "getWidgetDefinition ''Text'' = Definition w_Text
   \<and> defaultProps w_Text = None
   \<and> createDefaultComponent ''17'' ''abc'' ''Text''
       = Inr (ComponentNode ''Text-17-abc'' ''Text'' [] [])"
  using C4_default_component_has_empty_props [of "''Text''" w_Text "''17''" "''abc''"]
  by (simp add: getWidgetDefinition_Text)

section \<open>Lookup, update and delete on trees\<close>

lemma find_None_iff:
  "(findComponentById c x = None) = (x \<notin> set (node_ids c))"
  "(findInChildren cs x = None) = (x \<notin> set (forest_ids cs))"
  by (induction c x and cs x rule: findComponentById_findInChildren.induct)
     (auto simp: forest_ids_def split: option.splits)

lemma update_absent:
  "x \<notin> set (node_ids c) \<Longrightarrow> updateComponentRecursive c x u = c"
  by (induction c x u rule: updateComponentRecursive.induct) (auto simp: map_idI)

text \<open>
  An updater that keeps the identifier is applied to exactly the node the lookup finds,
  and the lookup finds the updated node afterwards.
\<close>

lemma find_update:
  assumes u: "\<And>n. id_c (u n) = id_c n"
  shows "findComponentById (updateComponentRecursive c x u) x
           = map_option u (findComponentById c x)"
    and "findInChildren (map (\<lambda>child. updateComponentRecursive child x u) cs) x
           = map_option u (findInChildren cs x)"
proof (induction c x and cs x rule: findComponentById_findInChildren.induct)
  case (1 i t p cs x)
  show ?case
  proof (cases "i = x")
    case True
    have "id_c (u (ComponentNode i t p cs)) = x" using u True by simp
    then have "findComponentById (u (ComponentNode i t p cs)) x
                 = Some (u (ComponentNode i t p cs))"
      by (cases "u (ComponentNode i t p cs)") simp
    with True show ?thesis by simp
  next
    case False
    with 1 show ?thesis by simp
  qed
next
  case (2 x)
  show ?case by simp
next
  case (3 child rest x)
  then show ?case by (cases "findComponentById child x") auto
qed

lemma map_the_filter_Some:
  "map the (filter (\<lambda>c. c \<noteq> None) (map Some xs)) = xs"
  by (induction xs) auto

lemma delete_absent:
  "x \<notin> set (node_ids c) \<Longrightarrow> deleteComponentRecursive c x = Some c"
proof (induction c x rule: deleteComponentRecursive.induct)
  case (1 i t p cs x)
  from "1.prems" have ne: "i \<noteq> x"
    and absent: "\<And>ch. ch \<in> set cs \<Longrightarrow> x \<notin> set (node_ids ch)"
    by auto
  have "\<And>ch. ch \<in> set cs \<Longrightarrow> deleteComponentRecursive ch x = Some ch"
    using "1.IH" ne absent by blast
  then have "map (\<lambda>child. deleteComponentRecursive child x) cs = map Some cs"
    by simp
  then show ?case
    using ne by (simp only: deleteComponentRecursive.simps map_the_filter_Some if_False)
qed



lemma spread_props_id: "id_c (spread_props P n) = id_c n"
  by (simp add: spread_props_def)

lemma find_after_spread_props:
  assumes "i \<in> set (node_ids T)"
  shows "map_option props (findComponentById (updateComponentRecursive T i (spread_props P)) i)
           = Some P"
proof -
  from assms obtain n where n: "findComponentById T i = Some n"
    using find_None_iff(1) [of T i] by (cases "findComponentById T i") auto
  have "findComponentById (updateComponentRecursive T i (spread_props P)) i
          = map_option (spread_props P) (findComponentById T i)"
    by (rule find_update(1)) (rule spread_props_id)
  with n show ?thesis by (simp add: spread_props_def)
qed

lemma update_forest_absent:
  "i \<notin> set (forest_ids T) \<Longrightarrow> updateComponentInTree T i updater = T"
  by (simp add: updateComponentInTree_def forest_ids_def update_absent map_idI)

text \<open>
  C5 (as stated, refuted): the claim says that updating the props of an identifier that
  resolves nowhere fails. On a page with one Text root and the stale selection \<open>ghost\<close>,
  \<open>updateComponentInTree\<close> returns the root list as it was, and \<open>handleUpdateProps\<close>
  returns normally, with the state as it was and no notice.
\<close>

theorem C5_counterexample_silent:
  "updateComponentInTree [ComponentNode ''Text-1-a'' ''Text'' [] []] ''ghost''
       (spread_props [(''text'', JString ''bye'')])
     = [ComponentNode ''Text-1-a'' ''Text'' [] []]
   \<and> handleUpdateProps [(''text'', JString ''bye'')] text_root = Inr text_root"
  by (simp add: updateComponentInTree_def handleUpdateProps_def text_root_def currentPage_def)

text \<open>
  C5 (amended): for every root list \<open>T\<close>, every identifier that occurs nowhere in \<open>T\<close>
  and every updater, \<open>updateComponentInTree\<close> returns a root list equal to \<open>T\<close>; the
  update of a missing identifier is a silent no-op, as the delete is.
\<close>

theorem C5_update_absent_is_noop:
  "i \<notin> set (forest_ids T) \<Longrightarrow> updateComponentInTree T i updater = T"
  by (rule update_forest_absent)

text \<open>C5, witness: the sample tree has no node \<open>ghost\<close>.\<close>

theorem C5_witness:
  "''ghost'' \<notin> set (forest_ids [sample_tree])
   \<and> updateComponentInTree [sample_tree] ''ghost'' (spread_props [(''k'', JBoolean True)])
       = [sample_tree]"
  using C5_update_absent_is_noop
    [of "''ghost''" "[sample_tree]" "spread_props [(''k'', JBoolean True)]"]
  by (simp add: forest_ids_def sample_tree_def)

text \<open>
  C6: for every tree \<open>T\<close> that contains a node with identifier \<open>i\<close> and every property
  map \<open>P\<close>, looking \<open>i\<close> up in the tree returned by the props update yields a node whose
  props are exactly \<open>P\<close>: the whole map is replaced. (Uniqueness of identifiers is not
  needed: update and lookup both stop at the first match in the same traversal order.)
\<close>

theorem C6_update_then_find:
  "i \<in> set (node_ids T) \<Longrightarrow>
     map_option props (findComponentById (updateComponentRecursive T i (spread_props P)) i)
       = Some P"
  by (rule find_after_spread_props)

text \<open>
  C6, witness: node \<open>a\<close> of the sample tree has the keys \<open>text\<close> and \<open>fontSize\<close>; after
  the update with a map that has only \<open>color\<close>, the key \<open>text\<close> is gone.
\<close>

theorem C6_witness:
  "''a'' \<in> set (node_ids sample_tree)
   \<and> map_option props (findComponentById sample_tree ''a'')
       = Some [(''text'', JString ''hi''), (''fontSize'', JNumber 14)]
   \<and> map_option props
        (findComponentById
           (updateComponentRecursive sample_tree ''a''
              (spread_props [(''color'', JString ''#fff'')])) ''a'')
       = Some [(''color'', JString ''#fff'')]
   \<and> map_of [(''color'', JString ''#fff'')] ''text'' = None"
  using C6_update_then_find [of "''a''" sample_tree "[(''color'', JString ''#fff'')]"]
  by (simp add: sample_tree_def)

text \<open>
  C7: for every root list \<open>T\<close> and every identifier that occurs nowhere in \<open>T\<close>,
  \<open>deleteComponentFromTree\<close> returns a root list equal to \<open>T\<close>.
\<close>

theorem C7_delete_absent_is_noop:
  "i \<notin> set (forest_ids T) \<Longrightarrow> deleteComponentFromTree T i = T"
proof -
  assume "i \<notin> set (forest_ids T)"
  then have "\<And>c. c \<in> set T \<Longrightarrow> deleteComponentRecursive c i = Some c"
    by (auto simp: forest_ids_def intro: delete_absent)
  then have "map (\<lambda>c. deleteComponentRecursive c i) T = map Some T"
    by simp
  then show ?thesis
    by (simp only: deleteComponentFromTree_def map_the_filter_Some)
qed

text \<open>C7, witness: deleting \<open>ghost\<close> from the sample tree.\<close>

theorem C7_witness:
  "''ghost'' \<notin> set (forest_ids [sample_tree])
   \<and> deleteComponentFromTree [sample_tree] ''ghost'' = [sample_tree]"
  using C7_delete_absent_is_noop [of "''ghost''" "[sample_tree]"]
  by (simp add: forest_ids_def sample_tree_def)

section \<open>Selection reads the first root only\<close>







section \<open>Export and reload\<close>

subsection \<open>Numbers\<close>



























subsection \<open>Strings and white space\<close>















subsection \<open>Parsing a rendered value\<close>








text \<open>
  What the text does not carry: an \<open>undefined\<close> property is gone after the round
  trip, \<open>NaN\<close> comes back as \<open>null\<close> and \<open>-0\<close> as \<open>0\<close>.
\<close>

lemma JSON_round_trip_lossy:
  "map_option JSON_parse
     (JSON_stringify (JObject [(''a'', JUndefined), (''b'', JNonFinite NaN), (''c'', JNumber 7),
        (''d'', JNegativeZero)]))
     = Some (Inr (JObject [(''b'', JNull), (''c'', JNumber 7), (''d'', JNumber 0)]))"
  by code_simp

text \<open>
  Some values and their texts: a fraction, closing zeros, \<open>-0\<close>, an exponent, and an
  array index that is written after another key and enumerates before it.
\<close>

lemma JSON_text_examples:
  "JSON_stringify (JDecimal 145 1) = Some ''14.5''"
  "JSON_stringify (JDecimal (- 5) 3) = Some ''-0.005''"
  "JSON_stringify (JNumber (- 12)) = Some ''-12''"
  "JSON_parse ''14.50'' = Inr (JDecimal 145 1)"
  "JSON_parse ''1.0'' = Inr (JNumber 1)"
  "JSON_parse ''-0'' = Inr JNegativeZero"
  "JSON_parse ''1e3'' = Inl OutOfModel"
  "JSON_parse ''01'' = Inl SyntaxError"
  "JSON_parse (''{'' @ QuoteJSONString ''b'' @ '':1,'' @ QuoteJSONString ''1'' @ '':2}'')
     = Inr (JObject [(''1'', JNumber 2), (''b'', JNumber 1)])"
  by code_simp+

subsection \<open>The document\<close>








text \<open>
  Outside the valid projects the reload differs: the \<open>undefined\<close> property is gone,
  \<open>NaN\<close> is \<open>null\<close> and \<open>-0\<close> is \<open>0\<close>.
\<close>

lemma export_reload_lossy:
  "(case JSON_parse (handleExportJSON ''my_app'' lossy_project) of
      Inl e \<Rightarrow> None
    | Inr doc \<Rightarrow> fromDocument fresh0 doc)
   = Some (Inr (Some
       [\<lparr>id_pg = ''page_1'', name_pg = ''Home'', route = ''/'', is_home = True,
         components =
           [ComponentNode ''Text-1-a'' ''Text''
              [(''fontSize'', JNull), (''flex'', JNumber 0)] []]\<rparr>]))"
  by code_simp



section \<open>Deleting a page\<close>

lemma filter_distinct_ids_nonempty:
  assumes "distinct (map id_pg ps)" and "2 \<le> length ps"
  shows "filter (\<lambda>p. id_pg p \<noteq> i) ps \<noteq> []"
proof -
  from assms(2) obtain a b rest where ps: "ps = a # b # rest"
    by (cases ps; cases "tl ps") auto
  with assms(1) have "id_pg a \<noteq> id_pg b" by auto
  then have "id_pg a \<noteq> i \<or> id_pg b \<noteq> i" by auto
  with ps show ?thesis by auto
qed

text \<open>
  Where the page identifiers are pairwise distinct the handler does what its notice
  says: it returns normally and leaves at least one page; on a single page it only raises
  the notice; on a larger collection it removes the page, and when that was the current
  page the first remaining page becomes current.
\<close>

lemma handleDeletePage_distinct_ids:
  assumes "distinct (map id_pg (pages st))" and "pages st \<noteq> []"
  shows "case handleDeletePage i st of
           Inl e \<Rightarrow> False
         | Inr st' \<Rightarrow>
             pages st' \<noteq> []
             \<and> (length (pages st) = 1 \<longrightarrow>
                  pages st' = pages st \<and> currentPageId st' = currentPageId st
                  \<and> toasts st' = toasts st @ [ToastError ''You must have at least one page''])
             \<and> (length (pages st) \<noteq> 1 \<longrightarrow>
                  pages st' = filter (\<lambda>p. id_pg p \<noteq> i) (pages st)
                  \<and> (currentPageId st = i \<longrightarrow> currentPageId st' = id_pg (hd (pages st')))
                  \<and> (currentPageId st \<noteq> i \<longrightarrow> currentPageId st' = currentPageId st))"
proof (cases "length (pages st) = 1")
  case True
  with assms(2) show ?thesis by (simp add: handleDeletePage_def)
next
  case False
  with assms(2) have "2 \<le> length (pages st)"
    by (cases "pages st"; cases "tl (pages st)") auto
  then have ne: "filter (\<lambda>p. id_pg p \<noteq> i) (pages st) \<noteq> []"
    using filter_distinct_ids_nonempty [OF assms(1)] by blast
  with False show ?thesis
    by (cases "filter (\<lambda>p. id_pg p \<noteq> i) (pages st)")
       (auto simp: handleDeletePage_def Let_def)
qed

text \<open>
  C9 (the code departs from the claim): \<open>loadProject\<close> takes a document whose two
  screens carry the same identifier \<open>home\<close>, each with a Scaffold root, to a state of
  two pages; the first is the current page and the page renders. The collection holds
  two pages, so the guard does not fire; the filter removes both, the page list is set
  to the empty list, and reading the first remaining page throws: no page is retained
  and no page becomes current.
\<close>

theorem C9_duplicate_ids_empty_the_collection:
  "loadProject fresh0 dup_document empty_editor = Some dup_pages
   \<and> length (pages dup_pages) = 2
   \<and> selectedComponentEnhanced dup_pages = Inr None
   \<and> handleDeletePage ''home'' dup_pages = Inl (TypeError, dup_pages\<lparr>pages := []\<rparr>)"
  by (simp add: handleDeletePage_def dup_pages_def selectedComponentEnhanced_def
      currentPage_def or_empty_def loadProject_def fromDocument_def dup_document_def
      get_prop_def load_components_def truthy_def empty_editor_def)

end
